theory Spec2Isabelle
  imports Complex_Main "HOL-Library.AList" "HOL-Library.Multiset"
begin

section \<open>Strings and numbers of the host language\<close>

text \<open>
  The program is TypeScript. A string is the list of its UTF-16 code units, each a number
  from 0 to 65535 and here an integer (an integer out of that range is no code unit, and
  counts as an ordinary character); \<open>utf16\<close> gives the code units of a literal of this
  theory, whose characters are all below 256.
  \<open>String.prototype.toLowerCase\<close> rests on the case tables of Unicode, which are not part of
  the program: where the program calls it, the model takes it as a parameter. A number is an
  IEEE double in the program; here a finite number is a \<^typ>\<open>real\<close>, and the values that are
  not finite numbers are constructors of their own. \<open>parseFloat\<close> rounds to the nearest
  double; the additions and subtractions of the summary are exact.
\<close>

type_synonym jsstring = "int list"

definition utf16 :: "string \<Rightarrow> jsstring" where
  "utf16 s = map of_char s"

definition isWhiteSpace :: "int \<Rightarrow> bool" where
  \<comment> \<open>WhiteSpace and LineTerminator: TAB, LF, VT, FF, CR, SP, NBSP, U+1680, U+2000 to
      U+200A, U+2028, U+2029, U+202F, U+205F, U+3000, U+FEFF\<close>
  "isWhiteSpace c \<longleftrightarrow>
     c \<in> {9, 10, 11, 12, 13, 32, 160, 5760, 8232, 8233, 8239, 8287, 12288, 65279}
     \<or> (8192 \<le> c \<and> c \<le> 8202)"

definition trimStart :: "jsstring \<Rightarrow> jsstring" where
  "trimStart s = dropWhile isWhiteSpace s"

definition trim :: "jsstring \<Rightarrow> jsstring" where
  \<comment> \<open>\<open>String.prototype.trim\<close>\<close>
  "trim s = rev (dropWhile isWhiteSpace (rev (dropWhile isWhiteSpace s)))"

datatype number = Finite real | PosInfinity | NegInfinity | NaN

fun isNaN :: "number \<Rightarrow> bool" where
  "isNaN NaN = True"
| "isNaN _ = False"

fun le_zero :: "number \<Rightarrow> bool" where
  \<comment> \<open>\<open>x <= 0\<close>; a comparison with NaN is false\<close>
  "le_zero (Finite r) = (r \<le> 0)"
| "le_zero NegInfinity = True"
| "le_zero PosInfinity = False"
| "le_zero NaN = False"

fun minus_number :: "number \<Rightarrow> real \<Rightarrow> number" where
  "minus_number (Finite r) a = Finite (r - a)"
| "minus_number n a = n"

fun plus_number :: "number \<Rightarrow> real \<Rightarrow> number" where
  "plus_number (Finite r) a = Finite (r + a)"
| "plus_number n a = n"

section \<open>The transaction record and the summary object\<close>

text \<open>
  \<open>interface Transaction\<close> of the context module. The optional \<open>_id\<close> is the field
  \<open>tid\<close>. An amount that arrives in a JSON body is a finite number.
\<close>

record Transaction =
  tid :: "jsstring option"
  lender :: jsstring
  borrower :: jsstring
  amount :: real
  createdAt :: "jsstring option"

text \<open>
  \<open>tempSummary\<close> is an object literal \<open>{}\<close>: its own properties, in insertion order, and
  behind them the properties it inherits from \<open>Object.prototype\<close>. A value read from it is a
  number, an inherited member of \<open>Object.prototype\<close> (\<open>Builtin k\<close>: a function object, and
  for \<open>__proto__\<close> the prototype object), or a string (\<open>Text k as\<close>): the text of
  \<open>Builtin k\<close> followed by the decimal forms of the numbers \<open>as\<close>, which is what \<open>+=\<close>
  makes of an object operand.
\<close>

datatype jsvalue = Number number | Builtin jsstring | Text jsstring "real list"

type_synonym Summary = "(jsstring \<times> jsvalue) list"

definition Object_prototype_names :: "jsstring list" where
  "Object_prototype_names =
     map utf16
       [''constructor'', ''__defineGetter__'', ''__defineSetter__'', ''hasOwnProperty'',
        ''__lookupGetter__'', ''__lookupSetter__'', ''isPrototypeOf'',
        ''propertyIsEnumerable'', ''toString'', ''valueOf'', ''__proto__'',
        ''toLocaleString'']"

definition inherited :: "jsstring \<Rightarrow> bool" where
  "inherited k \<longleftrightarrow> k \<in> set Object_prototype_names"

definition get_prop :: "Summary \<Rightarrow> jsstring \<Rightarrow> jsvalue option" where
  \<comment> \<open>\<open>obj[k]\<close>; \<open>None\<close> is \<open>undefined\<close>\<close>
  "get_prop obj k =
     (case map_of obj k of
        Some v \<Rightarrow> Some v
      | None \<Rightarrow> if inherited k then Some (Builtin k) else None)"

definition set_prop :: "Summary \<Rightarrow> jsstring \<Rightarrow> jsvalue \<Rightarrow> Summary" where
  \<comment> \<open>\<open>obj[k] = v\<close> for a primitive \<open>v\<close>: the inherited setter of \<open>__proto__\<close> ignores it\<close>
  "set_prop obj k v = (if k = utf16 ''__proto__'' then obj else AList.update k v obj)"

fun subtract :: "jsvalue option \<Rightarrow> real \<Rightarrow> jsvalue" where
  \<comment> \<open>\<open>x - a\<close>: an operand that is not a number converts to NaN\<close>
  "subtract (Some (Number n)) a = Number (minus_number n a)"
| "subtract _ a = Number NaN"

fun add :: "jsvalue option \<Rightarrow> real \<Rightarrow> jsvalue" where
  \<comment> \<open>\<open>x + a\<close>: an object or string operand makes it a concatenation\<close>
  "add (Some (Number n)) a = Number (plus_number n a)"
| "add (Some (Builtin k)) a = Text k [a]"
| "add (Some (Text k as)) a = Text k (as @ [a])"
| "add None a = Number NaN"

definition ensure :: "Summary \<Rightarrow> jsstring \<Rightarrow> Summary" where
  \<comment> \<open>\<open>if (tempSummary[k] === undefined) { tempSummary[k] = 0; }\<close>\<close>
  "ensure obj k = (if get_prop obj k = None then set_prop obj k (Number (Finite 0)) else obj)"

definition decrease :: "Summary \<Rightarrow> jsstring \<Rightarrow> real \<Rightarrow> Summary" where
  \<comment> \<open>\<open>tempSummary[k] -= a\<close>\<close>
  "decrease obj k a = set_prop obj k (subtract (get_prop obj k) a)"

definition increase :: "Summary \<Rightarrow> jsstring \<Rightarrow> real \<Rightarrow> Summary" where
  \<comment> \<open>\<open>tempSummary[k] += a\<close>\<close>
  "increase obj k a = set_prop obj k (add (get_prop obj k) a)"

definition tally :: "Summary \<Rightarrow> Transaction \<Rightarrow> Summary" where
  \<comment> \<open>the body of \<open>transactions.forEach\<close> in \<open>summaries\<close>\<close>
  "tally tempSummary tx =
     (let lender' = trim (lender tx);
          borrower' = trim (borrower tx);
          amount' = amount tx
      in increase (decrease (ensure (ensure tempSummary lender') borrower') lender' amount')
           borrower' amount')"

definition summaries :: "Transaction list \<Rightarrow> Summary" where
  "summaries transactions = foldl tally [] transactions"

text \<open>The names a list of transactions mentions, and what it lends and borrows under a name.\<close>

definition lenders :: "Transaction list \<Rightarrow> jsstring list" where
  "lenders ts = map (\<lambda>tx. trim (lender tx)) ts"

definition borrowers :: "Transaction list \<Rightarrow> jsstring list" where
  "borrowers ts = map (\<lambda>tx. trim (borrower tx)) ts"

definition lent :: "jsstring \<Rightarrow> Transaction list \<Rightarrow> real" where
  "lent k ts = sum_list (map amount (filter (\<lambda>tx. trim (lender tx) = k) ts))"

definition borrowed :: "jsstring \<Rightarrow> Transaction list \<Rightarrow> real" where
  "borrowed k ts = sum_list (map amount (filter (\<lambda>tx. trim (borrower tx) = k) ts))"

text \<open>The sum of the values of a summary: a number only when every value is a finite number.\<close>

fun finite_value :: "jsvalue \<Rightarrow> real option" where
  "finite_value (Number (Finite r)) = Some r"
| "finite_value _ = None"

definition sum_of_values :: "Summary \<Rightarrow> real option" where
  "sum_of_values s = map_option sum_list (those (map (\<lambda>(k, v). finite_value v) s))"

subsection \<open>The aggregation as the specification words it\<close>

text \<open>
  An empty mapping; for each transaction in order: trim both names, enter each with 0 when
  absent, subtract the amount from the lender's entry and add it to the borrower's.
\<close>

definition aggregate_step ::
  "(jsstring \<rightharpoonup> real) \<Rightarrow> Transaction \<Rightarrow> (jsstring \<rightharpoonup> real)" where
  "aggregate_step m tx =
     (let l = trim (lender tx);
          b = trim (borrower tx);
          m1 = (if m l = None then m(l \<mapsto> 0) else m);
          m2 = (if m1 b = None then m1(b \<mapsto> 0) else m1);
          m3 = (case m2 l of Some x \<Rightarrow> m2(l \<mapsto> x - amount tx) | None \<Rightarrow> m2)
      in (case m3 b of Some y \<Rightarrow> m3(b \<mapsto> y + amount tx) | None \<Rightarrow> m3))"

definition aggregate :: "Transaction list \<Rightarrow> (jsstring \<rightharpoonup> real)" where
  "aggregate ts = foldl aggregate_step Map.empty ts"

section \<open>The remote API and the transaction store\<close>

text \<open>
  The remote service is not part of the program: it is a parameter, a state \<open>'w\<close> with
  the answer it gives to \<open>GET /transactions\<close> (which reads the state) and to
  \<open>POST /transactions\<close> (which may change it). An answer is a 2xx response with its body,
  another status, or no response at all.
\<close>

datatype 'a response = Success 'a | Non2xx nat | NetworkError

record TransactionPayload =
  payload_lender :: jsstring
  payload_borrower :: jsstring
  payload_amount :: number

record 'w remote =
  GET_transactions :: "'w \<Rightarrow> Transaction list response"
  POST_transactions :: "TransactionPayload \<Rightarrow> 'w \<Rightarrow> Transaction response \<times> 'w"

datatype request = GetTransactions | CreateTransaction TransactionPayload

text \<open>A thrown error object, as the handlers read it: \<open>err.response?.data?.message\<close>
  and \<open>err.message\<close>. The messages of this program are literals of its text, and are
  kept as such.\<close>

record Error =
  response_data_message :: "string option"
  message :: string

definition errorMessage :: "Error \<Rightarrow> string \<Rightarrow> string" where
  \<comment> \<open>\<open>err.response?.data?.message || err.message || fallback\<close>: the first that is not
      empty\<close>
  "errorMessage err fallback =
     (case response_data_message err of
        Some m \<Rightarrow> if m \<noteq> [] then m else if message err \<noteq> [] then message err else fallback
      | None \<Rightarrow> if message err \<noteq> [] then message err else fallback)"

text \<open>
  The state of \<open>TransactionProvider\<close> (\<open>transactions\<close>, \<open>isLoading\<close>, \<open>error\<close>), together
  with the state of the remote service and the requests sent to it so far. An operation runs
  from its call to its completion with nothing in between.
\<close>

record 'w TransactionProvider =
  transactions :: "Transaction list"
  isLoading :: bool
  error :: "string option"
  world :: 'w
  requests :: "request list"

definition getTransactions ::
  "'w remote \<Rightarrow> 'w TransactionProvider \<Rightarrow> (Error + Transaction list) \<times> 'w TransactionProvider" where
  "getTransactions api s =
     (let s' = s\<lparr>requests := requests s @ [GetTransactions]\<rparr>
      in case GET_transactions api (world s) of
           Success data \<Rightarrow> (Inr data, s')
         | Non2xx status \<Rightarrow>
             (Inl \<lparr>response_data_message = None,
                   message = ''Failed to fetch transactions from the server.''\<rparr>, s')
         | NetworkError \<Rightarrow>
             (Inl \<lparr>response_data_message = None,
                   message = ''Failed to fetch transactions from the server.''\<rparr>, s'))"

definition createTransaction ::
  "'w remote \<Rightarrow> TransactionPayload \<Rightarrow> 'w TransactionProvider
     \<Rightarrow> (Error + Transaction) \<times> 'w TransactionProvider" where
  "createTransaction api payload s =
     (let (answer, w') = POST_transactions api payload (world s);
          s' = s\<lparr>world := w', requests := requests s @ [CreateTransaction payload]\<rparr>
      in case answer of
           Success data \<Rightarrow> (Inr data, s')
         | Non2xx status \<Rightarrow>
             (Inl \<lparr>response_data_message = None,
                   message = ''Failed to create the transaction on the server.''\<rparr>, s')
         | NetworkError \<Rightarrow>
             (Inl \<lparr>response_data_message = None,
                   message = ''Failed to create the transaction on the server.''\<rparr>, s'))"

text \<open>\<open>fetchTransactions\<close>: what runs before the request, and what runs when it has settled
  (the \<open>try\<close> or the \<open>catch\<close> branch, then \<open>finally\<close>).\<close>

definition fetchTransactions_start :: "'w TransactionProvider \<Rightarrow> 'w TransactionProvider" where
  "fetchTransactions_start s = (s\<lparr>isLoading := True\<rparr>)\<lparr>error := None\<rparr>"

definition fetchTransactions_settle ::
  "Error + Transaction list \<Rightarrow> 'w TransactionProvider \<Rightarrow> 'w TransactionProvider" where
  "fetchTransactions_settle outcome s =
     (case outcome of
        Inr fetchedTransactions \<Rightarrow> s\<lparr>transactions := fetchedTransactions\<rparr>
      | Inl err \<Rightarrow>
          (s\<lparr>error := Some (errorMessage err
                ''Failed to load transactions. Please try again later.'')\<rparr>)
            \<lparr>transactions := []\<rparr>)
     \<lparr>isLoading := False\<rparr>"

definition fetchTransactions :: "'w remote \<Rightarrow> 'w TransactionProvider \<Rightarrow> 'w TransactionProvider" where
  "fetchTransactions api s =
     (let (outcome, s') = getTransactions api (fetchTransactions_start s)
      in fetchTransactions_settle outcome s')"

definition addTransaction ::
  "'w remote \<Rightarrow> TransactionPayload \<Rightarrow> 'w TransactionProvider \<Rightarrow> 'w TransactionProvider" where
  "addTransaction api transactionData s =
     (let (outcome, s') = createTransaction api transactionData (s\<lparr>isLoading := True\<rparr>)
      in case outcome of
           Inr created \<Rightarrow> fetchTransactions api s'
         | Inl err \<Rightarrow>
             (s'\<lparr>error := Some (errorMessage err
                   ''Failed to add transaction. Please try again.'')\<rparr>)
               \<lparr>isLoading := False\<rparr>)"

section \<open>The transaction form\<close>

definition isDigit :: "int \<Rightarrow> bool" where
  "isDigit c \<longleftrightarrow> 48 \<le> c \<and> c \<le> 57"

definition digitsValue :: "jsstring \<Rightarrow> int" where
  "digitsValue ds = foldl (\<lambda>n c. 10 * n + (c - 48)) 0 ds"

text \<open>The double nearest to a fraction \<open>p / q\<close> of a natural \<open>p\<close> and a positive \<open>q\<close>
  (ties to the even significand; at or beyond the halfway point past the largest double,
  Infinity).\<close>

function bitLength :: "int \<Rightarrow> nat" where
  "bitLength n = (if n \<le> 0 then 0 else Suc (bitLength (n div 2)))"
  by pat_completeness auto
termination
  by (relation "measure nat") auto

definition atLeastPow2 :: "int \<Rightarrow> int \<Rightarrow> int \<Rightarrow> bool" where
  \<comment> \<open>\<open>2 ^ k \<le> p / q\<close>\<close>
  "atLeastPow2 p q k = (if 0 \<le> k then q * 2 ^ nat k \<le> p else q \<le> p * 2 ^ nat (- k))"

definition roundHalfEven :: "int \<Rightarrow> int \<Rightarrow> int" where
  \<comment> \<open>the integer nearest to \<open>num / den\<close>, the even one of two equally near\<close>
  "roundHalfEven num den =
     (let n = num div den;
          r = num mod den
      in if 2 * r < den then n
         else if den < 2 * r then n + 1
         else if even n then n else n + 1)"

definition scale2 :: "int \<Rightarrow> int \<Rightarrow> real" where
  \<comment> \<open>\<open>n * 2 ^ k\<close>\<close>
  "scale2 n k =
     (if 0 \<le> k then real_of_int (n * 2 ^ nat k)
      else real_of_int n / real_of_int (2 ^ nat (- k)))"

definition nearestDouble :: "int \<Rightarrow> int \<Rightarrow> number" where
  "nearestDouble p q =
     (if p = 0 then Finite 0
      else (let d = int (bitLength p) - int (bitLength q);
                e = max (- 1022) (if atLeastPow2 p q d then d else d - 1);
                k = e - 52;
                n = (if 0 \<le> k then roundHalfEven p (q * 2 ^ nat k)
                     else roundHalfEven (p * 2 ^ nat (- k)) q)
            in if 1023 < e \<or> (e = 1023 \<and> 2 ^ 53 \<le> n) then PosInfinity
               else Finite (scale2 n k)))"

definition decimalValue :: "int \<Rightarrow> int \<Rightarrow> number" where
  \<comment> \<open>the double for the digits \<open>m\<close> times ten to the \<open>e\<close>\<close>
  "decimalValue m e =
     (if 0 \<le> e then nearestDouble (m * 10 ^ nat e) 1 else nearestDouble m (10 ^ nat (- e)))"

fun negate :: "number \<Rightarrow> number" where
  "negate (Finite r) = Finite (- r)"
| "negate PosInfinity = NegInfinity"
| "negate NegInfinity = PosInfinity"
| "negate NaN = NaN"

definition scanSign :: "jsstring \<Rightarrow> bool \<times> jsstring" where
  \<comment> \<open>an optional sign: whether it is a minus, and what follows it\<close>
  "scanSign s =
     (case s of
        [] \<Rightarrow> (False, s)
      | c # r \<Rightarrow> if c = of_char CHR ''-'' then (True, r)
                 else if c = of_char CHR ''+'' then (False, r)
                 else (False, s))"

definition scanExponent :: "jsstring \<Rightarrow> int \<times> jsstring" where
  \<comment> \<open>an ExponentPart if one starts here (\<open>e\<close> or \<open>E\<close>, an optional sign, digits)\<close>
  "scanExponent s =
     (case s of
        [] \<Rightarrow> (0, s)
      | c # r \<Rightarrow>
          if c = of_char CHR ''e'' \<or> c = of_char CHR ''E''
          then (let (neg, r') = scanSign r;
                    ds = takeWhile isDigit r'
                in if ds = [] then (0, s)
                   else (if neg then - digitsValue ds else digitsValue ds,
                         dropWhile isDigit r'))
          else (0, s))"

definition scanUnsigned :: "jsstring \<Rightarrow> (number \<times> jsstring) option" where
  \<comment> \<open>the longest prefix that is digits with an optional fraction, or a fraction alone,
      and an optional exponent; its value and the rest of the string\<close>
  "scanUnsigned s =
     (let ip = takeWhile isDigit s;
          r1 = dropWhile isDigit s
      in case r1 of
           [] \<Rightarrow> if ip = [] then None else Some (decimalValue (digitsValue ip) 0, [])
         | c # r \<Rightarrow>
             if c = of_char CHR ''.''
             then (let fp = takeWhile isDigit r;
                       r2 = dropWhile isDigit r
                   in if ip = [] \<and> fp = [] then None
                      else (let (e, r3) = scanExponent r2
                            in Some (decimalValue (digitsValue (ip @ fp)) (e - int (length fp)),
                                     r3)))
             else if ip = [] then None
             else (let (e, r3) = scanExponent r1
                   in Some (decimalValue (digitsValue ip) e, r3)))"

definition scanDecimal :: "jsstring \<Rightarrow> (number \<times> jsstring) option" where
  \<comment> \<open>the longest prefix that is a StrDecimalLiteral\<close>
  "scanDecimal s =
     (let (neg, u) = scanSign s
      in if take 8 u = utf16 ''Infinity''
         then Some (if neg then NegInfinity else PosInfinity, drop 8 u)
         else map_option (\<lambda>(m, rest). (if neg then negate m else m, rest))
                (scanUnsigned u))"

definition parseFloat :: "jsstring \<Rightarrow> number" where
  "parseFloat s = (case scanDecimal (trimStart s) of Some (n, rest) \<Rightarrow> n | None \<Rightarrow> NaN)"

record FormErrors =
  lender_error :: "string option"
  borrower_error :: "string option"
  amount_error :: "string option"
  form_error :: "string option"

definition no_errors :: FormErrors where
  "no_errors = \<lparr>lender_error = None, borrower_error = None, amount_error = None,
                form_error = None\<rparr>"

definition Object_keys_length :: "FormErrors \<Rightarrow> nat" where
  \<comment> \<open>\<open>Object.keys(errors).length\<close>, for an object whose keys were assigned strings\<close>
  "Object_keys_length e =
     length (filter (\<lambda>x. x \<noteq> None)
       [lender_error e, borrower_error e, amount_error e, form_error e])"

text \<open>The state of the form component: the three fields as typed, the errors shown and the
  submitting flag.\<close>

record TransactionForm =
  form_lender :: jsstring
  form_borrower :: jsstring
  form_amount :: jsstring
  errors :: FormErrors
  isSubmitting :: bool

definition validateForm :: "(jsstring \<Rightarrow> jsstring) \<Rightarrow> TransactionForm \<Rightarrow> FormErrors" where
  "validateForm toLowerCase f =
     (let trimmedLender = trim (form_lender f);
          trimmedBorrower = trim (form_borrower f);
          e1 = (if trimmedLender = []
                then no_errors\<lparr>lender_error := Some ''Lender name is required.''\<rparr>
                else no_errors);
          e2 = (if trimmedBorrower = []
                then e1\<lparr>borrower_error := Some ''Borrower name is required.''\<rparr>
                else e1);
          e3 = (if trimmedLender \<noteq> [] \<and> trimmedBorrower \<noteq> []
                   \<and> toLowerCase trimmedLender = toLowerCase trimmedBorrower
                then e2\<lparr>borrower_error := Some ''Borrower cannot be the same as the lender.''\<rparr>
                else e2)
      in if form_amount f = []
         then e3\<lparr>amount_error := Some ''Amount is required.''\<rparr>
         else (let parsedAmount = parseFloat (form_amount f)
               in if isNaN parsedAmount \<or> le_zero parsedAmount
                  then e3\<lparr>amount_error := Some ''Please enter a valid positive amount.''\<rparr>
                  else e3))"

text \<open>\<open>handleSubmit\<close>. \<open>addTransaction\<close> catches every error of its own, so the \<open>catch\<close>
  branch of \<open>handleSubmit\<close> has nothing to run on. The second argument stands for
  \<open>String.prototype.toLowerCase\<close>.\<close>

definition handleSubmit ::
  "'w remote \<Rightarrow> (jsstring \<Rightarrow> jsstring) \<Rightarrow> TransactionForm \<times> 'w TransactionProvider
     \<Rightarrow> TransactionForm \<times> 'w TransactionProvider" where
  "handleSubmit api toLowerCase = (\<lambda>(f, s).
     (let validationErrors = validateForm toLowerCase f
      in if 0 < Object_keys_length validationErrors
         then (f\<lparr>errors := validationErrors\<rparr>, s)
         else (let f1 = (f\<lparr>errors := no_errors\<rparr>)\<lparr>isSubmitting := True\<rparr>;
                   transactionData =
                     \<lparr>payload_lender = trim (form_lender f),
                      payload_borrower = trim (form_borrower f),
                      payload_amount = parseFloat (form_amount f)\<rparr>;
                   s' = addTransaction api transactionData s;
                   f2 = ((f1\<lparr>form_lender := []\<rparr>)\<lparr>form_borrower := []\<rparr>)\<lparr>form_amount := []\<rparr>
               in (f2\<lparr>isSubmitting := False\<rparr>, s'))))"

subsection \<open>Remote services and inputs to run the operations on\<close>

definition memory_api :: "Transaction list remote" where
  \<comment> \<open>keeps the transactions in a list and always answers\<close>
  "memory_api =
     \<lparr>GET_transactions = (\<lambda>w. Success w),
      POST_transactions = (\<lambda>p w.
        (let created = \<lparr>tid = Some (utf16 ''new''), lender = payload_lender p,
                         borrower = payload_borrower p,
                         amount = (case payload_amount p of Finite r \<Rightarrow> r | _ \<Rightarrow> 0),
                         createdAt = None\<rparr>
         in (Success created, w @ [created])))\<rparr>"

definition failing_api :: "Transaction list remote" where
  \<comment> \<open>never reachable for reading, and refuses every creation\<close>
  "failing_api =
     \<lparr>GET_transactions = (\<lambda>w. NetworkError),
      POST_transactions = (\<lambda>p w. (Non2xx 500, w))\<rparr>"

definition provider :: "Transaction list \<Rightarrow> string option \<Rightarrow> 'w \<Rightarrow> 'w TransactionProvider" where
  "provider ts e w = \<lparr>transactions = ts, isLoading = False, error = e, world = w, requests = []\<rparr>"

definition loan :: "string \<Rightarrow> string \<Rightarrow> real \<Rightarrow> Transaction" where
  "loan l b a =
     \<lparr>tid = None, lender = utf16 l, borrower = utf16 b, amount = a, createdAt = None\<rparr>"

definition form :: "string \<Rightarrow> string \<Rightarrow> string \<Rightarrow> TransactionForm" where
  "form l b a =
     \<lparr>form_lender = utf16 l, form_borrower = utf16 b, form_amount = utf16 a,
      errors = no_errors, isSubmitting = False\<rparr>"

definition latin1_lowerChar :: "int \<Rightarrow> int" where
  \<comment> \<open>A-Z and the Latin-1 capitals (all of 192..222 but the multiplication sign 215)\<close>
  "latin1_lowerChar c =
     (if (65 \<le> c \<and> c \<le> 90) \<or> (192 \<le> c \<and> c \<le> 222 \<and> c \<noteq> 215) then c + 32 else c)"

definition latin1_toLowerCase :: "jsstring \<Rightarrow> jsstring" where
  \<comment> \<open>what \<open>toLowerCase\<close> does to a string of code units below 256\<close>
  "latin1_toLowerCase s = map latin1_lowerChar s"

section \<open>The summary of ordinary names\<close>

text \<open>
  A name is ordinary when \<open>Object.prototype\<close> has no member of that name. Under an ordinary
  name the summary holds what the transactions borrowed under it less what they lent.
\<close>

lemma map_of_set_prop:
  "map_of (set_prop s k' v) k = (if k' = k \<and> k \<noteq> utf16 ''__proto__'' then Some v else map_of s k)"
  by (simp add: set_prop_def update_conv')

lemma proto_inherited: "inherited (utf16 ''__proto__'')"
  by (simp add: inherited_def Object_prototype_names_def)

lemma ordinary_not_proto: "\<not> inherited k \<Longrightarrow> k \<noteq> utf16 ''__proto__''"
  using proto_inherited by blast

lemma get_prop_ordinary: "\<not> inherited k \<Longrightarrow> get_prop s k = map_of s k"
  by (simp add: get_prop_def split: option.splits)

lemma map_of_ensure:
  "map_of (ensure s k') k =
     (if k' = k \<and> \<not> inherited k \<and> map_of s k = None then Some (Number (Finite 0))
      else map_of s k)"
  by (auto simp add: ensure_def map_of_set_prop get_prop_def proto_inherited split: option.splits)

lemma map_of_decrease:
  "map_of (decrease s k' a) k =
     (if k' = k \<and> k \<noteq> utf16 ''__proto__'' then Some (subtract (get_prop s k) a) else map_of s k)"
  by (simp add: decrease_def map_of_set_prop)

lemma map_of_increase:
  "map_of (increase s k' a) k =
     (if k' = k \<and> k \<noteq> utf16 ''__proto__'' then Some (add (get_prop s k) a) else map_of s k)"
  by (simp add: increase_def map_of_set_prop)

lemma get_prop_ensure:
  "\<not> inherited k \<Longrightarrow> get_prop (ensure s k') k =
     (if k' = k \<and> map_of s k = None then Some (Number (Finite 0)) else map_of s k)"
  by (simp add: get_prop_ordinary map_of_ensure)

lemma get_prop_decrease:
  "\<not> inherited k \<Longrightarrow> get_prop (decrease s k' a) k =
     (if k' = k then Some (subtract (map_of s k) a) else map_of s k)"
  by (simp add: get_prop_ordinary map_of_decrease ordinary_not_proto)

lemma tally_other:
  "k \<noteq> trim (lender tx) \<Longrightarrow> k \<noteq> trim (borrower tx) \<Longrightarrow> map_of (tally s tx) k = map_of s k"
  by (simp add: tally_def Let_def map_of_ensure map_of_decrease map_of_increase)

lemma tally_ordinary:
  assumes "\<not> inherited k"
  shows "map_of (tally s tx) k =
    (let v = map_of s k;
         v0 = (case v of None \<Rightarrow> Some (Number (Finite 0)) | Some x \<Rightarrow> Some x);
         v1 = (if trim (lender tx) = k then Some (subtract v0 (amount tx)) else v0)
     in if trim (lender tx) = k \<or> trim (borrower tx) = k
        then (if trim (borrower tx) = k then Some (add v1 (amount tx)) else v1)
        else v)"
proof -
  define l where "l = trim (lender tx)"
  define b where "b = trim (borrower tx)"
  define a where "a = amount tx"
  have np: "k \<noteq> utf16 ''__proto__''" using assms by (rule ordinary_not_proto)
  have t: "tally s tx = increase (decrease (ensure (ensure s l) b) l a) b a"
    by (simp add: tally_def Let_def l_def b_def a_def)
  have e2: "map_of (ensure (ensure s l) b) k =
      (if (l = k \<or> b = k) \<and> map_of s k = None then Some (Number (Finite 0)) else map_of s k)"
    using assms by (simp add: map_of_ensure)
  have d: "map_of (decrease (ensure (ensure s l) b) l a) k =
      (if l = k then Some (subtract (map_of (ensure (ensure s l) b) k) a)
       else map_of (ensure (ensure s l) b) k)"
    using assms np by (simp add: map_of_decrease get_prop_ordinary)
  have i: "map_of (tally s tx) k =
      (if b = k then Some (add (map_of (decrease (ensure (ensure s l) b) l a) k) a)
       else map_of (decrease (ensure (ensure s l) b) l a) k)"
    using assms np by (simp add: t map_of_increase get_prop_ordinary)
  show ?thesis
    unfolding i d e2 Let_def l_def[symmetric] b_def[symmetric] a_def[symmetric]
    by (simp split: option.splits)
qed

lemma lent_snoc: "lent k (ts @ [tx]) = lent k ts + (if trim (lender tx) = k then amount tx else 0)"
  by (simp add: lent_def)

lemma borrowed_snoc:
  "borrowed k (ts @ [tx]) = borrowed k ts + (if trim (borrower tx) = k then amount tx else 0)"
  by (simp add: borrowed_def)

lemma lent_absent: "k \<notin> set (lenders ts) \<Longrightarrow> lent k ts = 0"
  by (induction ts) (auto simp: lent_def lenders_def)

lemma borrowed_absent: "k \<notin> set (borrowers ts) \<Longrightarrow> borrowed k ts = 0"
  by (induction ts) (auto simp: borrowed_def borrowers_def)

lemma summaries_snoc: "summaries (ts @ [tx]) = tally (summaries ts) tx"
  by (simp add: summaries_def)

lemma summaries_ordinary:
  assumes "\<not> inherited k"
  shows "map_of (summaries ts) k =
           (if k \<in> set (lenders ts) \<union> set (borrowers ts)
            then Some (Number (Finite (borrowed k ts - lent k ts))) else None)"
proof (induction ts rule: rev_induct)
  case Nil
  show ?case by (simp add: summaries_def lenders_def borrowers_def)
next
  case (snoc tx ts)
  show ?case
  proof (cases "k \<in> set (lenders ts) \<union> set (borrowers ts)")
    case True
    with snoc show ?thesis
      by (auto simp add: summaries_snoc tally_ordinary[OF assms] Let_def lent_snoc borrowed_snoc
          lenders_def borrowers_def)
  next
    case False
    then have "lent k ts = 0" "borrowed k ts = 0"
      by (simp_all add: lent_absent borrowed_absent)
    with False snoc show ?thesis
      by (auto simp add: summaries_snoc tally_ordinary[OF assms] Let_def lent_snoc borrowed_snoc
          lenders_def borrowers_def)
  qed
qed

lemma summaries_untouched:
  "k \<notin> set (lenders ts) \<union> set (borrowers ts) \<Longrightarrow> map_of (summaries ts) k = None"
proof (induction ts rule: rev_induct)
  case Nil
  show ?case by (simp add: summaries_def)
next
  case (snoc tx ts)
  then show ?case
    by (auto simp add: summaries_snoc tally_other lenders_def borrowers_def)
qed

lemma aggregate_snoc: "aggregate (ts @ [tx]) = aggregate_step (aggregate ts) tx"
  by (simp add: aggregate_def)

lemma aggregate_step_at:
  "aggregate_step m tx k =
     (let v0 = (case m k of None \<Rightarrow> 0 | Some x \<Rightarrow> x);
          v1 = (if trim (lender tx) = k then v0 - amount tx else v0)
      in if trim (lender tx) = k \<or> trim (borrower tx) = k
         then Some (if trim (borrower tx) = k then v1 + amount tx else v1)
         else m k)"
  by (auto simp add: aggregate_step_def Let_def split: option.splits)

lemma aggregate_closed:
  "aggregate ts k =
     (if k \<in> set (lenders ts) \<union> set (borrowers ts)
      then Some (borrowed k ts - lent k ts) else None)"
proof (induction ts rule: rev_induct)
  case Nil
  show ?case by (simp add: aggregate_def lenders_def borrowers_def)
next
  case (snoc tx ts)
  show ?case
  proof (cases "k \<in> set (lenders ts) \<union> set (borrowers ts)")
    case True
    with snoc show ?thesis
      by (auto simp add: aggregate_snoc aggregate_step_at Let_def lent_snoc borrowed_snoc
          lenders_def borrowers_def)
  next
    case False
    then have "lent k ts = 0" "borrowed k ts = 0"
      by (simp_all add: lent_absent borrowed_absent)
    with False snoc show ?thesis
      by (auto simp add: aggregate_snoc aggregate_step_at Let_def lent_snoc borrowed_snoc
          lenders_def borrowers_def)
  qed
qed

lemma summaries_refine_aggregate:
  assumes "\<forall>k \<in> set (lenders ts) \<union> set (borrowers ts). \<not> inherited k"
  shows "map_of (summaries ts) k = map_option (\<lambda>r. Number (Finite r)) (aggregate ts k)"
proof (cases "k \<in> set (lenders ts) \<union> set (borrowers ts)")
  case True
  with assms have "\<not> inherited k" by blast
  then show ?thesis by (simp add: summaries_ordinary aggregate_closed)
next
  case False
  then show ?thesis by (simp add: summaries_untouched aggregate_closed)
qed

lemma lent_mset: "mset ts = mset ts' \<Longrightarrow> lent k ts = lent k ts'"
proof -
  assume h: "mset ts = mset ts'"
  have "lent k ts = sum_mset (image_mset amount (filter_mset (\<lambda>tx. trim (lender tx) = k) (mset ts)))" for ts
    unfolding lent_def by (metis mset_filter mset_map sum_mset_sum_list)
  then show ?thesis using h by simp
qed

lemma borrowed_mset: "mset ts = mset ts' \<Longrightarrow> borrowed k ts = borrowed k ts'"
proof -
  assume h: "mset ts = mset ts'"
  have "borrowed k ts = sum_mset (image_mset amount (filter_mset (\<lambda>tx. trim (borrower tx) = k) (mset ts)))" for ts
    unfolding borrowed_def by (metis mset_filter mset_map sum_mset_sum_list)
  then show ?thesis using h by simp
qed

lemma names_mset:
  assumes "mset ts = mset ts'"
  shows "set (lenders ts) = set (lenders ts')" "set (borrowers ts) = set (borrowers ts')"
proof -
  have "set ts = set ts'" using assms by (rule mset_eq_setD)
  then show "set (lenders ts) = set (lenders ts')" "set (borrowers ts) = set (borrowers ts')"
    by (simp_all add: lenders_def borrowers_def)
qed

lemma summaries_permuted_ordinary:
  assumes "mset ts = mset ts'" "\<not> inherited k"
  shows "map_of (summaries ts') k = map_of (summaries ts) k"
  using assms
  by (simp add: summaries_ordinary names_mset[OF assms(1)] lent_mset[OF assms(1)]
      borrowed_mset[OF assms(1)])


subsection \<open>Conservation\<close>

lemma sum_of_values_Nil: "sum_of_values [] = Some 0"
  by (simp add: sum_of_values_def)

lemma sum_of_values_Cons:
  "sum_of_values ((k, v) # s) =
     (case finite_value v of None \<Rightarrow> None
      | Some r \<Rightarrow> map_option (\<lambda>c. r + c) (sum_of_values s))"
  by (cases "those (map (\<lambda>(k, y). finite_value y) s)")
     (simp_all add: sum_of_values_def split: option.splits)

lemma finite_value_Some: "finite_value v = Some r \<longleftrightarrow> v = Number (Finite r)"
  by (cases "(v)" rule: finite_value.cases) auto

lemma sum_of_values_finite:
  "sum_of_values s = Some c \<Longrightarrow> map_of s k = Some x \<Longrightarrow> \<exists>r. x = Number (Finite r)"
proof (induction s arbitrary: c)
  case Nil
  then show ?case by simp
next
  case (Cons p s)
  obtain k' v where p: "p = (k', v)" by (cases p)
  from Cons.prems(1) obtain r c' where v: "finite_value v = Some r" and c': "sum_of_values s = Some c'"
    by (auto simp add: p sum_of_values_Cons split: option.splits)
  show ?case
  proof (cases "k' = k")
    case True
    with Cons.prems(2) p have "x = v" by simp
    with v show ?thesis by (auto simp add: finite_value_Some)
  next
    case False
    with Cons.prems(2) p have "map_of s k = Some x" by simp
    with Cons.IH[OF c'] show ?thesis by blast
  qed
qed

lemma sum_of_values_update:
  "sum_of_values s = Some c \<Longrightarrow>
   sum_of_values (AList.update k (Number (Finite v)) s) =
     Some (c + v - (case map_of s k of Some (Number (Finite r)) \<Rightarrow> r | _ \<Rightarrow> 0))"
proof (induction s arbitrary: c)
  case Nil
  then show ?case by (simp add: sum_of_values_Cons sum_of_values_Nil)
next
  case (Cons p s)
  obtain k' x where p: "p = (k', x)" by (cases p)
  from Cons.prems obtain r c' where x: "x = Number (Finite r)" and c': "sum_of_values s = Some c'"
    and c: "c = r + c'"
    by (auto simp add: p sum_of_values_Cons finite_value_Some split: option.splits)
  show ?case
  proof (cases "k' = k")
    case True
    then show ?thesis by (simp add: p x c c' sum_of_values_Cons)
  next
    case False
    then show ?thesis using Cons.IH[OF c'] by (simp add: p x c sum_of_values_Cons)
  qed
qed

lemma sum_of_values_ensure:
  assumes "\<not> inherited k" "sum_of_values s = Some c"
  shows "sum_of_values (ensure s k) = Some c"
proof (cases "map_of s k")
  case None
  then have "ensure s k = AList.update k (Number (Finite 0)) s"
    using assms(1) by (simp add: ensure_def get_prop_ordinary set_prop_def ordinary_not_proto)
  then show ?thesis using sum_of_values_update[OF assms(2), of k 0] None by simp
next
  case (Some x)
  then show ?thesis using assms by (simp add: ensure_def get_prop_ordinary)
qed

lemma sum_of_values_decrease:
  assumes "\<not> inherited k" "sum_of_values s = Some c" "map_of s k \<noteq> None"
  shows "sum_of_values (decrease s k a) = Some (c - a)"
proof -
  from assms(3) obtain x where x: "map_of s k = Some x" by blast
  with sum_of_values_finite[OF assms(2)] obtain r where r: "map_of s k = Some (Number (Finite r))"
    by blast
  then have "decrease s k a = AList.update k (Number (Finite (r - a))) s"
    using assms(1) by (simp add: decrease_def get_prop_ordinary set_prop_def ordinary_not_proto)
  then show ?thesis using sum_of_values_update[OF assms(2), of k "r - a"] r by simp
qed

lemma sum_of_values_increase:
  assumes "\<not> inherited k" "sum_of_values s = Some c" "map_of s k \<noteq> None"
  shows "sum_of_values (increase s k a) = Some (c + a)"
proof -
  from assms(3) obtain x where x: "map_of s k = Some x" by blast
  with sum_of_values_finite[OF assms(2)] obtain r where r: "map_of s k = Some (Number (Finite r))"
    by blast
  then have "increase s k a = AList.update k (Number (Finite (r + a))) s"
    using assms(1) by (simp add: increase_def get_prop_ordinary set_prop_def ordinary_not_proto)
  then show ?thesis using sum_of_values_update[OF assms(2), of k "r + a"] r by simp
qed

lemma sum_of_values_tally:
  assumes l: "\<not> inherited (trim (lender tx))" and b: "\<not> inherited (trim (borrower tx))"
    and c: "sum_of_values s = Some c"
  shows "sum_of_values (tally s tx) = Some c"
proof -
  define s2 where "s2 = ensure (ensure s (trim (lender tx))) (trim (borrower tx))"
  define s3 where "s3 = decrease s2 (trim (lender tx)) (amount tx)"
  have c2: "sum_of_values s2 = Some c"
    unfolding s2_def by (intro sum_of_values_ensure l b c)
  have pl: "map_of s2 (trim (lender tx)) \<noteq> None"
    using l by (simp add: s2_def map_of_ensure)
  have pb: "map_of s2 (trim (borrower tx)) \<noteq> None"
    using b by (simp add: s2_def map_of_ensure)
  have c3: "sum_of_values s3 = Some (c - amount tx)"
    unfolding s3_def by (rule sum_of_values_decrease[OF l c2 pl])
  have pb3: "map_of s3 (trim (borrower tx)) \<noteq> None"
    using pb by (simp add: s3_def map_of_decrease)
  have "sum_of_values (increase s3 (trim (borrower tx)) (amount tx)) = Some (c - amount tx + amount tx)"
    by (rule sum_of_values_increase[OF b c3 pb3])
  then show ?thesis by (simp add: tally_def Let_def s3_def s2_def)
qed

lemma sum_of_values_foldl:
  assumes "\<forall>k \<in> set (lenders ts) \<union> set (borrowers ts). \<not> inherited k"
    and "sum_of_values s = Some c"
  shows "sum_of_values (foldl tally s ts) = Some c"
  using assms
proof (induction ts arbitrary: s)
  case Nil
  then show ?case by simp
next
  case (Cons tx ts)
  have "sum_of_values (tally s tx) = Some c"
    using Cons.prems by (intro sum_of_values_tally) (simp_all add: lenders_def borrowers_def)
  moreover have "\<forall>k \<in> set (lenders ts) \<union> set (borrowers ts). \<not> inherited k"
    using Cons.prems(1) by (simp add: lenders_def borrowers_def)
  ultimately show ?case using Cons.IH by simp
qed

lemma summaries_conserve:
  "\<forall>k \<in> set (lenders ts) \<union> set (borrowers ts). \<not> inherited k \<Longrightarrow>
   sum_of_values (summaries ts) = Some 0"
  unfolding summaries_def by (rule sum_of_values_foldl) (simp_all add: sum_of_values_Nil)

lemma borrowed_nonneg:
  "\<forall>t \<in> set ts. trim (borrower t) = k \<longrightarrow> 0 < amount t \<Longrightarrow> 0 \<le> borrowed k ts"
  by (induction ts) (auto simp add: borrowed_def)

lemma borrowed_positive:
  "\<forall>t \<in> set ts. trim (borrower t) = k \<longrightarrow> 0 < amount t \<Longrightarrow> k \<in> set (borrowers ts) \<Longrightarrow>
   0 < borrowed k ts"
proof (induction ts)
  case Nil
  then show ?case by (simp add: borrowers_def)
next
  case (Cons t ts)
  have nn: "0 \<le> borrowed k ts" using Cons.prems(1) by (intro borrowed_nonneg) simp
  show ?case
  proof (cases "trim (borrower t) = k")
    case True
    then have "0 < amount t" using Cons.prems(1) by simp
    with nn True show ?thesis by (simp add: borrowed_def)
  next
    case False
    with Cons have "0 < borrowed k ts" by (simp add: borrowers_def)
    with False show ?thesis by (simp add: borrowed_def)
  qed
qed

lemma summaries_self_loan:
  assumes "trim (lender t) = k" "trim (borrower t) = k" "\<not> inherited k"
  shows "map_of (summaries (ts @ [t])) k' =
           (if k' = k \<and> map_of (summaries ts) k = None then Some (Number (Finite 0))
            else map_of (summaries ts) k')"
proof (cases "k' = k")
  case True
  have "map_of (summaries ts) k = None \<or> (\<exists>r. map_of (summaries ts) k = Some (Number (Finite r)))"
    using assms(3) by (simp add: summaries_ordinary)
  then show ?thesis
    using assms True by (auto simp add: summaries_snoc tally_ordinary Let_def)
next
  case False
  then show ?thesis using assms by (simp add: summaries_snoc tally_other)
qed


lemma summaries_only_lender_or_borrower:
  assumes "\<not> inherited k"
  shows "(k \<in> set (lenders ts) \<and> k \<notin> set (borrowers ts) \<longrightarrow>
            map_of (summaries ts) k = Some (Number (Finite (- lent k ts))))
       \<and> (k \<in> set (borrowers ts) \<and> k \<notin> set (lenders ts) \<longrightarrow>
            map_of (summaries ts) k = Some (Number (Finite (borrowed k ts)))
          \<and> ((\<forall>t \<in> set ts. trim (borrower t) = k \<longrightarrow> 0 < amount t) \<longrightarrow> 0 < borrowed k ts))"
  using assms
  by (auto simp add: summaries_ordinary lent_absent borrowed_absent borrowed_positive)

lemma summaries_example:
  "summaries [loan ''A'' ''B'' 10]
     = [(utf16 ''A'', Number (Finite (- 10))), (utf16 ''B'', Number (Finite 10))]"
  by code_simp

lemma ordinary_A: "\<not> inherited (utf16 ''A'')"
  by code_simp

lemma ordinary_B: "\<not> inherited (utf16 ''B'')"
  by code_simp

section \<open>The claims about the summary\<close>

text \<open>
  C1. The summary of every list of transactions is the mapping of the fold the specification
  gives (trimmed, case-sensitive names; an absent name entered with 0; the amount subtracted
  from the lender and added to the borrower). The program enters a name with 0 when
  \<open>tempSummary[name] === undefined\<close>, and that is false for an absent name that
  \<open>Object.prototype\<close> has: for the one transaction from \<open>constructor\<close> to \<open>B\<close> of 10 the
  program leaves NaN under \<open>constructor\<close> where the fold has -10. (Lemma
  \<open>summaries_refine_aggregate\<close> is the claim for lists of ordinary names, and
  \<open>summaries_example\<close> its example.)
\<close>

theorem summaries_inherited_lender:
  "map_of (summaries [loan ''constructor'' ''B'' 10]) (utf16 ''constructor'')
     = Some (Number NaN)
   \<and> aggregate [loan ''constructor'' ''B'' 10] (utf16 ''constructor'') = Some (- 10)"
proof -
  have "utf16 ''constructor'' \<in> set (lenders [loan ''constructor'' ''B'' 10])"
    by code_simp
  then have "aggregate [loan ''constructor'' ''B'' 10] (utf16 ''constructor'')
          = Some (borrowed (utf16 ''constructor'') [loan ''constructor'' ''B'' 10]
                  - lent (utf16 ''constructor'') [loan ''constructor'' ''B'' 10])"
    by (simp add: aggregate_closed)
  moreover have "borrowed (utf16 ''constructor'') [loan ''constructor'' ''B'' 10] = 0"
    by code_simp
  moreover have "lent (utf16 ''constructor'') [loan ''constructor'' ''B'' 10] = 10"
    by code_simp
  moreover have "map_of (summaries [loan ''constructor'' ''B'' 10]) (utf16 ''constructor'')
          = Some (Number NaN)"
    by code_simp
  ultimately show ?thesis by simp
qed

text \<open>
  C2. The values of the summary of valid transactions (a positive amount, a lender other
  than the borrower) add up to zero. For the valid transaction from \<open>constructor\<close> to \<open>B\<close> of
  10 the summary is \<open>{B: 10, constructor: NaN}\<close>, whose values have no numeric sum. (Lemma
  \<open>summaries_conserve\<close> is the claim for lists of ordinary names, the sums taken exactly.)
\<close>

theorem summaries_inherited_sum:
  "summaries [loan ''constructor'' ''B'' 10]
     = [(utf16 ''B'', Number (Finite 10)), (utf16 ''constructor'', Number NaN)]
   \<and> sum_of_values (summaries [loan ''constructor'' ''B'' 10]) = None"
  by code_simp

text \<open>
  C7. The summary of a permuted list has the same keys and values. Two loans of 1 and of 2
  from \<open>A\<close> to \<open>constructor\<close> leave under \<open>constructor\<close> the text of the inherited function
  followed by \<open>12\<close>; in the other order, followed by \<open>21\<close>. (Lemma
  \<open>summaries_permuted_ordinary\<close> is the claim for an ordinary name, the sums taken exactly.)
\<close>

theorem summaries_inherited_order:
  "map_of (summaries [loan ''A'' ''constructor'' 1, loan ''A'' ''constructor'' 2])
       (utf16 ''constructor'')
     = Some (Text (utf16 ''constructor'') [1, 2])
   \<and> map_of (summaries [loan ''A'' ''constructor'' 2, loan ''A'' ''constructor'' 1])
       (utf16 ''constructor'')
     = Some (Text (utf16 ''constructor'') [2, 1])"
  by code_simp

text \<open>
  C8. A name that a list has only as a lender ends at minus the sum of what was lent under
  it, and one it has only as a borrower at the sum of what was borrowed under it. In the one
  transaction from \<open>constructor\<close> to \<open>B\<close> of 10 the name \<open>constructor\<close> is only a lender
  and has lent 10, and the summary holds NaN under it. (Lemma
  \<open>summaries_only_lender_or_borrower\<close> is the claim for an ordinary name, with the sums
  taken exactly.)
\<close>

theorem summaries_inherited_only_lender:
  "utf16 ''constructor'' \<in> set (lenders [loan ''constructor'' ''B'' 10])
   \<and> utf16 ''constructor'' \<notin> set (borrowers [loan ''constructor'' ''B'' 10])
   \<and> lent (utf16 ''constructor'') [loan ''constructor'' ''B'' 10] = 10
   \<and> map_of (summaries [loan ''constructor'' ''B'' 10]) (utf16 ''constructor'')
       = Some (Number NaN)"
  by code_simp

text \<open>
  C9. A transaction whose trimmed lender is its trimmed borrower, appended to a list, leaves
  every balance as it was and enters the shared name with 0 when it was absent. After the one
  transaction from \<open>constructor\<close> to \<open>constructor\<close> the name, absent before, holds NaN.
  (Lemma \<open>summaries_self_loan\<close> is the claim for an ordinary shared name, the sums taken
  exactly.)
\<close>

theorem summaries_inherited_self_loan:
  "map_of (summaries []) (utf16 ''constructor'') = None
   \<and> map_of (summaries ([] @ [loan ''constructor'' ''constructor'' 5])) (utf16 ''constructor'')
       = Some (Number NaN)"
  by code_simp

section \<open>The claims about the store\<close>

lemma getTransactions_Success:
  "GET_transactions api (world s) = Success fetched \<Longrightarrow>
   getTransactions api s = (Inr fetched, s\<lparr>requests := requests s @ [GetTransactions]\<rparr>)"
  by (simp add: getTransactions_def)

lemma getTransactions_failure:
  "GET_transactions api (world s) = Non2xx n \<or> GET_transactions api (world s) = NetworkError \<Longrightarrow>
   getTransactions api s =
     (Inl \<lparr>response_data_message = None,
           message = ''Failed to fetch transactions from the server.''\<rparr>,
      s\<lparr>requests := requests s @ [GetTransactions]\<rparr>)"
  by (auto simp add: getTransactions_def)

lemma fetch_message:
  "errorMessage \<lparr>response_data_message = None,
      message = ''Failed to fetch transactions from the server.''\<rparr> fallback =
   ''Failed to fetch transactions from the server.''"
  by (simp add: errorMessage_def)

lemma create_message:
  "errorMessage \<lparr>response_data_message = None,
      message = ''Failed to create the transaction on the server.''\<rparr> fallback =
   ''Failed to create the transaction on the server.''"
  by (simp add: errorMessage_def)

lemma fetchTransactions_Success:
  assumes "GET_transactions api (world s) = Success fetched"
  shows "fetchTransactions api s =
           s\<lparr>transactions := fetched, isLoading := False, error := None,
             requests := requests s @ [GetTransactions]\<rparr>"
  using assms
  by (simp add: fetchTransactions_def fetchTransactions_start_def fetchTransactions_settle_def
      getTransactions_def)

lemma fetchTransactions_failed:
  assumes "GET_transactions api (world s) = Non2xx n \<or> GET_transactions api (world s) = NetworkError"
  shows "fetchTransactions api s =
           s\<lparr>transactions := [], isLoading := False,
             error := Some ''Failed to fetch transactions from the server.'',
             requests := requests s @ [GetTransactions]\<rparr>"
  using assms
  by (auto simp add: fetchTransactions_def fetchTransactions_start_def fetchTransactions_settle_def
      getTransactions_def errorMessage_def)

lemma fetchTransactions_transactions:
  "transactions (fetchTransactions api s) =
     (case GET_transactions api (world s) of Success fetched \<Rightarrow> fetched | _ \<Rightarrow> [])"
  by (cases "GET_transactions api (world s)")
     (simp_all add: fetchTransactions_Success fetchTransactions_failed)

lemma fetchTransactions_world: "world (fetchTransactions api s) = world s"
  by (cases "GET_transactions api (world s)")
     (simp_all add: fetchTransactions_Success fetchTransactions_failed)

lemma addTransaction_Success:
  assumes "POST_transactions api p (world s) = (Success created, w')"
  shows "addTransaction api p s =
           fetchTransactions api
             (s\<lparr>isLoading := True, world := w', requests := requests s @ [CreateTransaction p]\<rparr>)"
  using assms by (simp add: addTransaction_def createTransaction_def)

lemma addTransaction_failed:
  assumes "fst (POST_transactions api p (world s)) = Non2xx n
         \<or> fst (POST_transactions api p (world s)) = NetworkError"
  shows "addTransaction api p s =
           s\<lparr>isLoading := False,
             error := Some ''Failed to create the transaction on the server.'',
             world := snd (POST_transactions api p (world s)),
             requests := requests s @ [CreateTransaction p]\<rparr>"
  using assms
  by (cases "POST_transactions api p (world s)")
     (auto simp add: addTransaction_def createTransaction_def errorMessage_def)

lemma addTransaction_requests:
  "\<exists>rest. requests (addTransaction api p s) = requests s @ CreateTransaction p # rest"
proof (cases "POST_transactions api p (world s)")
  case (Pair answer w')
  show ?thesis
  proof (cases answer)
    case (Success created)
    with Pair have "addTransaction api p s = fetchTransactions api
             (s\<lparr>isLoading := True, world := w', requests := requests s @ [CreateTransaction p]\<rparr>)"
      by (simp add: addTransaction_Success)
    then show ?thesis
      by (cases "GET_transactions api w'")
         (simp_all add: fetchTransactions_Success fetchTransactions_failed)
  next
    case (Non2xx n)
    with Pair show ?thesis by (simp add: addTransaction_failed)
  next
    case NetworkError
    with Pair show ?thesis by (simp add: addTransaction_failed)
  qed
qed

text \<open>
  C3. When the creation request of \<open>addTransaction\<close> succeeds, the collection it leaves is the
  one a further \<open>fetchTransactions\<close> would leave: what the remote service returns after the
  creation (or nothing, when that read fails), whatever the collection was before and whatever
  was submitted.
\<close>

theorem addTransaction_resynchronizes:
  assumes "fst (POST_transactions api p (world s)) = Success created"
  shows "transactions (addTransaction api p s) =
           transactions (fetchTransactions api (addTransaction api p s))
       \<and> transactions (addTransaction api p s) =
           (case GET_transactions api (snd (POST_transactions api p (world s))) of
              Success fetched \<Rightarrow> fetched | Non2xx n \<Rightarrow> [] | NetworkError \<Rightarrow> [])"
proof -
  obtain w' where post: "POST_transactions api p (world s) = (Success created, w')"
    using assms by (cases "POST_transactions api p (world s)") simp
  have a: "addTransaction api p s = fetchTransactions api
             (s\<lparr>isLoading := True, world := w', requests := requests s @ [CreateTransaction p]\<rparr>)"
    using post by (rule addTransaction_Success)
  have w: "world (addTransaction api p s) = w'"
    by (simp add: a fetchTransactions_world)
  show ?thesis
    by (simp add: fetchTransactions_transactions w post) (simp add: a fetchTransactions_transactions)
qed

theorem addTransaction_resynchronizes_witness:
  "transactions (addTransaction memory_api
       \<lparr>payload_lender = utf16 ''A'', payload_borrower = utf16 ''B'',
         payload_amount = Finite 10\<rparr>
       (provider [] None [loan ''C'' ''D'' 3]))
     = [loan ''C'' ''D'' 3,
        \<lparr>tid = Some (utf16 ''new''), lender = utf16 ''A'', borrower = utf16 ''B'', amount = 10,
          createdAt = None\<rparr>]"
proof -
  let ?p = "\<lparr>payload_lender = utf16 ''A'', payload_borrower = utf16 ''B'',
         payload_amount = Finite 10\<rparr>"
  let ?s = "provider [] None [loan ''C'' ''D'' 3] :: Transaction list TransactionProvider"
  let ?t = "\<lparr>tid = Some (utf16 ''new''), lender = utf16 ''A'', borrower = utf16 ''B'', amount = 10,
          createdAt = None\<rparr>"
  have post: "POST_transactions memory_api ?p (world ?s) = (Success ?t, [loan ''C'' ''D'' 3, ?t])"
    by (simp add: memory_api_def provider_def Let_def)
  then have "fst (POST_transactions memory_api ?p (world ?s)) = Success ?t" by simp
  from addTransaction_resynchronizes[OF this]
  have "transactions (addTransaction memory_api ?p ?s) =
          (case GET_transactions memory_api (snd (POST_transactions memory_api ?p (world ?s))) of
             Success fetched \<Rightarrow> fetched | Non2xx n \<Rightarrow> [] | NetworkError \<Rightarrow> [])"
    by blast
  moreover have "GET_transactions memory_api w = Success w" for w
    by (simp add: memory_api_def)
  ultimately show ?thesis by (simp add: post)
qed

text \<open>
  C4. When the creation request of \<open>addTransaction\<close> fails (another status than 2xx, or no
  response), the collection is the one held before the call, the error state holds a message,
  and the only request sent is the creation: \<open>fetchTransactions\<close> is not run.
\<close>

theorem addTransaction_failure:
  assumes "fst (POST_transactions api p (world s)) = Non2xx n
         \<or> fst (POST_transactions api p (world s)) = NetworkError"
  shows "transactions (addTransaction api p s) = transactions s
       \<and> error (addTransaction api p s) = Some ''Failed to create the transaction on the server.''
       \<and> requests (addTransaction api p s) = requests s @ [CreateTransaction p]
       \<and> \<not> isLoading (addTransaction api p s)"
  by (simp add: addTransaction_failed[OF assms])

theorem addTransaction_failure_witness:
  "transactions (addTransaction failing_api
       \<lparr>payload_lender = utf16 ''A'', payload_borrower = utf16 ''B'',
         payload_amount = Finite 10\<rparr>
       (provider [loan ''C'' ''D'' 3] None [])) = [loan ''C'' ''D'' 3]
   \<and> error (addTransaction failing_api
       \<lparr>payload_lender = utf16 ''A'', payload_borrower = utf16 ''B'',
         payload_amount = Finite 10\<rparr>
       (provider [loan ''C'' ''D'' 3] None []))
     = Some ''Failed to create the transaction on the server.''
   \<and> requests (addTransaction failing_api
       \<lparr>payload_lender = utf16 ''A'', payload_borrower = utf16 ''B'',
         payload_amount = Finite 10\<rparr>
       (provider [loan ''C'' ''D'' 3] None []))
     = [CreateTransaction
          \<lparr>payload_lender = utf16 ''A'', payload_borrower = utf16 ''B'',
         payload_amount = Finite 10\<rparr>]"
proof -
  let ?p = "\<lparr>payload_lender = utf16 ''A'', payload_borrower = utf16 ''B'',
         payload_amount = Finite 10\<rparr>"
  let ?s = "provider [loan ''C'' ''D'' 3] None [] :: Transaction list TransactionProvider"
  have "fst (POST_transactions failing_api ?p (world ?s)) = Non2xx 500
      \<or> fst (POST_transactions failing_api ?p (world ?s)) = NetworkError"
    by (simp add: failing_api_def)
  from addTransaction_failure[OF this] show ?thesis
    by (simp add: provider_def)
qed

text \<open>
  C5. When the request of \<open>fetchTransactions\<close> fails (another status than 2xx, or no
  response), the collection is empty and the error state holds the message of the failure.
\<close>

theorem fetchTransactions_failure:
  assumes "GET_transactions api (world s) = Non2xx n
         \<or> GET_transactions api (world s) = NetworkError"
  shows "transactions (fetchTransactions api s) = []
       \<and> error (fetchTransactions api s) = Some ''Failed to fetch transactions from the server.''
       \<and> \<not> isLoading (fetchTransactions api s)"
  by (simp add: fetchTransactions_failed[OF assms])

theorem fetchTransactions_failure_witness:
  "transactions (fetchTransactions failing_api (provider [loan ''C'' ''D'' 3] None [])) = []
   \<and> error (fetchTransactions failing_api (provider [loan ''C'' ''D'' 3] None []))
     = Some ''Failed to fetch transactions from the server.''"
proof -
  let ?s = "provider [loan ''C'' ''D'' 3] None [] :: Transaction list TransactionProvider"
  have "GET_transactions failing_api (world ?s) = Non2xx 0
      \<or> GET_transactions failing_api (world ?s) = NetworkError"
    by (simp add: failing_api_def)
  from fetchTransactions_failure[OF this] show ?thesis by simp
qed

text \<open>
  C10. \<open>fetchTransactions\<close> sends its request from a state whose error is null; so after a
  request that succeeds the error is null and the collection is the fetched list, whatever
  error the state held before.
\<close>

theorem fetchTransactions_clears_error:
  "error (fetchTransactions_start s) = None
   \<and> fetchTransactions api s
       = (case getTransactions api (fetchTransactions_start s) of
            (outcome, s') \<Rightarrow> fetchTransactions_settle outcome s')
   \<and> (\<forall>fetched. GET_transactions api (world s) = Success fetched \<longrightarrow>
         error (fetchTransactions api s) = None
         \<and> transactions (fetchTransactions api s) = fetched)"
proof (intro conjI allI impI)
  show "error (fetchTransactions_start s) = None"
    by (simp add: fetchTransactions_start_def)
  show "fetchTransactions api s
       = (case getTransactions api (fetchTransactions_start s) of
            (outcome, s') \<Rightarrow> fetchTransactions_settle outcome s')"
    by (simp add: fetchTransactions_def)
next
  fix fetched
  assume g: "GET_transactions api (world s) = Success fetched"
  show "error (fetchTransactions api s) = None"
    by (simp add: fetchTransactions_Success[OF g])
  show "transactions (fetchTransactions api s) = fetched"
    by (simp add: fetchTransactions_Success[OF g])
qed

theorem fetchTransactions_clears_error_witness:
  "error (provider [] (Some ''Failed to create the transaction on the server.'')
            [loan ''C'' ''D'' 3]) \<noteq> None
   \<and> error (fetchTransactions memory_api
        (provider [] (Some ''Failed to create the transaction on the server.'')
           [loan ''C'' ''D'' 3])) = None
   \<and> transactions (fetchTransactions memory_api
        (provider [] (Some ''Failed to create the transaction on the server.'')
           [loan ''C'' ''D'' 3])) = [loan ''C'' ''D'' 3]"
proof -
  let ?s = "provider [] (Some ''Failed to create the transaction on the server.'')
              [loan ''C'' ''D'' 3] :: Transaction list TransactionProvider"
  have g: "GET_transactions memory_api (world ?s) = Success [loan ''C'' ''D'' 3]"
    by (simp add: memory_api_def provider_def)
  have e: "error ?s \<noteq> None" by (simp add: provider_def)
  from fetchTransactions_clears_error[of ?s memory_api] g e show ?thesis by blast
qed

section \<open>The claim about the form\<close>

lemma isWhiteSpace_latin1_lowerChar: "isWhiteSpace (latin1_lowerChar c) = isWhiteSpace c"
  by (auto simp add: isWhiteSpace_def latin1_lowerChar_def)

lemma trim_latin1_toLowerCase: "latin1_toLowerCase (trim s) = trim (latin1_toLowerCase s)"
proof -
  have c: "isWhiteSpace \<circ> latin1_lowerChar = isWhiteSpace"
    by (rule ext) (simp add: isWhiteSpace_latin1_lowerChar)
  have d: "dropWhile isWhiteSpace (map latin1_lowerChar xs)
             = map latin1_lowerChar (dropWhile isWhiteSpace xs)" for xs
    by (simp add: dropWhile_map c)
  have "trim (map latin1_lowerChar s) =
          rev (dropWhile isWhiteSpace (map latin1_lowerChar (rev (dropWhile isWhiteSpace s))))"
    unfolding trim_def d rev_map ..
  also have "\<dots> = map latin1_lowerChar (trim s)"
    unfolding d trim_def rev_map ..
  finally show ?thesis by (simp add: latin1_toLowerCase_def)
qed

lemma validateForm_lender_required:
  "trim (form_lender f) = [] \<Longrightarrow> lender_error (validateForm toLowerCase f) \<noteq> None"
  by (simp add: validateForm_def Let_def no_errors_def)

lemma validateForm_borrower_required:
  "trim (form_borrower f) = [] \<Longrightarrow> borrower_error (validateForm toLowerCase f) \<noteq> None"
  by (simp add: validateForm_def Let_def no_errors_def)

lemma validateForm_same_person:
  "toLowerCase (trim (form_lender f)) = toLowerCase (trim (form_borrower f)) \<Longrightarrow>
   lender_error (validateForm toLowerCase f) \<noteq> None
   \<or> borrower_error (validateForm toLowerCase f) \<noteq> None"
  by (simp add: validateForm_def Let_def no_errors_def)

lemma validateForm_amount:
  "form_amount f = [] \<or> isNaN (parseFloat (form_amount f))
     \<or> le_zero (parseFloat (form_amount f)) \<Longrightarrow>
   amount_error (validateForm toLowerCase f) \<noteq> None"
  by (auto simp add: validateForm_def Let_def no_errors_def)

lemma keys_positive:
  "lender_error e \<noteq> None \<or> borrower_error e \<noteq> None \<or> amount_error e \<noteq> None \<Longrightarrow>
   0 < Object_keys_length e"
  by (auto simp add: Object_keys_length_def)

lemma handleSubmit_invalid:
  "0 < Object_keys_length (validateForm toLowerCase f) \<Longrightarrow>
   handleSubmit api toLowerCase (f, s) = (f\<lparr>errors := validateForm toLowerCase f\<rparr>, s)"
  by (simp add: handleSubmit_def Let_def)

lemma addTransaction_changes: "addTransaction api p s \<noteq> s"
proof
  assume "addTransaction api p s = s"
  then have "requests (addTransaction api p s) = requests s" by simp
  with addTransaction_requests[of api p s] show False by auto
qed

text \<open>
  C6. \<open>handleSubmit\<close> rejects a submission whose lender or borrower is empty after trimming,
  whose lender is the borrower when case is ignored (trimmed, as the form compares them; or
  as typed, \<open>toLowerCase\<close> leaving white space where it is), or whose amount is empty, has
  no number at its start, or parses to zero or to a negative number. It then only stores the
  validation errors: the store is as it was, no request is sent, and the state is none that a
  call of \<open>addTransaction\<close> leaves. The amount is the value of a number field, which is
  empty whenever what was typed is not a number.
\<close>

theorem handleSubmit_rejects:
  assumes "trim (form_lender f) = [] \<or> trim (form_borrower f) = []
         \<or> toLowerCase (trim (form_lender f)) = toLowerCase (trim (form_borrower f))
         \<or> (toLowerCase (form_lender f) = toLowerCase (form_borrower f)
             \<and> (\<forall>x. toLowerCase (trim x) = trim (toLowerCase x)))
         \<or> form_amount f = []
         \<or> parseFloat (form_amount f) = NaN
         \<or> parseFloat (form_amount f) = NegInfinity
         \<or> (\<exists>r. parseFloat (form_amount f) = Finite r \<and> r \<le> 0)"
  shows "handleSubmit api toLowerCase (f, s) = (f\<lparr>errors := validateForm toLowerCase f\<rparr>, s)
       \<and> 0 < Object_keys_length (validateForm toLowerCase f)
       \<and> (\<forall>p. snd (handleSubmit api toLowerCase (f, s)) \<noteq> addTransaction api p s)"
proof -
  have "lender_error (validateForm toLowerCase f) \<noteq> None
      \<or> borrower_error (validateForm toLowerCase f) \<noteq> None
      \<or> amount_error (validateForm toLowerCase f) \<noteq> None"
    using assms
  proof (elim disjE exE conjE)
    assume "trim (form_lender f) = []"
    then show ?thesis by (simp add: validateForm_lender_required)
  next
    assume "trim (form_borrower f) = []"
    then show ?thesis by (simp add: validateForm_borrower_required)
  next
    assume "toLowerCase (trim (form_lender f)) = toLowerCase (trim (form_borrower f))"
    then show ?thesis using validateForm_same_person by blast
  next
    assume "toLowerCase (form_lender f) = toLowerCase (form_borrower f)"
      and "\<forall>x. toLowerCase (trim x) = trim (toLowerCase x)"
    then have "toLowerCase (trim (form_lender f)) = toLowerCase (trim (form_borrower f))"
      by simp
    then show ?thesis using validateForm_same_person by blast
  next
    assume "form_amount f = []"
    then show ?thesis by (simp add: validateForm_amount)
  next
    assume "parseFloat (form_amount f) = NaN"
    then show ?thesis by (simp add: validateForm_amount)
  next
    assume "parseFloat (form_amount f) = NegInfinity"
    then show ?thesis by (simp add: validateForm_amount)
  next
    fix r assume "parseFloat (form_amount f) = Finite r" "r \<le> 0"
    then show ?thesis by (simp add: validateForm_amount)
  qed
  then have k: "0 < Object_keys_length (validateForm toLowerCase f)" by (rule keys_positive)
  then have h: "handleSubmit api toLowerCase (f, s)
      = (f\<lparr>errors := validateForm toLowerCase f\<rparr>, s)"
    by (rule handleSubmit_invalid)
  show ?thesis using k h by (simp add: addTransaction_changes[symmetric])
qed

lemma parseFloat_0: "parseFloat (utf16 ''0'') = Finite 0"
  by code_simp

lemma parseFloat_minus_5: "parseFloat (utf16 ''-5'') = Finite (- 5)"
  by code_simp

lemma parseFloat_abc: "parseFloat (utf16 ''abc'') = NaN"
  by code_simp

lemma parseFloat_underflow: "parseFloat (utf16 ''1e-400'') = Finite 0"
  by code_simp

theorem handleSubmit_rejects_witness:
  "handleSubmit memory_api latin1_toLowerCase (form ''A'' ''B'' ''0'', provider [] None [])
     = ((form ''A'' ''B'' ''0'')
          \<lparr>errors := validateForm latin1_toLowerCase (form ''A'' ''B'' ''0'')\<rparr>,
        provider [] None [])
   \<and> snd (handleSubmit memory_api latin1_toLowerCase
            (form ''A'' ''B'' ''-5'', provider [] None [])) = provider [] None []
   \<and> snd (handleSubmit memory_api latin1_toLowerCase
            (form ''A'' ''B'' ''abc'', provider [] None [])) = provider [] None []
   \<and> snd (handleSubmit memory_api latin1_toLowerCase
            (form ''A'' ''B'' ''1e-400'', provider [] None [])) = provider [] None []
   \<and> snd (handleSubmit memory_api latin1_toLowerCase
            (form ''A'' ''B'' [], provider [] None [])) = provider [] None []
   \<and> snd (handleSubmit memory_api latin1_toLowerCase
            (form ''  '' ''B'' ''5'', provider [] None [])) = provider [] None []
   \<and> snd (handleSubmit memory_api latin1_toLowerCase
            (form ''Bob '' '' bob'' ''5'', provider [] None [])) = provider [] None []
   \<and> snd (handleSubmit memory_api latin1_toLowerCase
            (form '' Bob'' '' BOB'' ''5'', provider [] None [])) = provider [] None []"
proof -
  have l: "latin1_toLowerCase (trim (utf16 ''Bob '')) = latin1_toLowerCase (trim (utf16 '' bob''))"
    by code_simp
  have u: "latin1_toLowerCase (utf16 '' Bob'') = latin1_toLowerCase (utf16 '' BOB'')"
    by code_simp
  have t: "trim (utf16 ''  '') = []"
    by code_simp
  note r = handleSubmit_rejects[where api = memory_api and toLowerCase = latin1_toLowerCase
      and s = "provider [] None []"]
  have "handleSubmit memory_api latin1_toLowerCase (form ''A'' ''B'' ''0'', provider [] None [])
     = ((form ''A'' ''B'' ''0'')
          \<lparr>errors := validateForm latin1_toLowerCase (form ''A'' ''B'' ''0'')\<rparr>,
        provider [] None [])"
    using r[of "form ''A'' ''B'' ''0''"] by (simp add: form_def parseFloat_0)
  moreover have "snd (handleSubmit memory_api latin1_toLowerCase
            (form ''A'' ''B'' ''-5'', provider [] None [])) = provider [] None []"
    using r[of "form ''A'' ''B'' ''-5''"] by (simp add: form_def parseFloat_minus_5)
  moreover have "snd (handleSubmit memory_api latin1_toLowerCase
            (form ''A'' ''B'' ''abc'', provider [] None [])) = provider [] None []"
    using r[of "form ''A'' ''B'' ''abc''"] by (simp add: form_def parseFloat_abc)
  moreover have "snd (handleSubmit memory_api latin1_toLowerCase
            (form ''A'' ''B'' ''1e-400'', provider [] None [])) = provider [] None []"
    using r[of "form ''A'' ''B'' ''1e-400''"] by (simp add: form_def parseFloat_underflow)
  moreover have "snd (handleSubmit memory_api latin1_toLowerCase
            (form ''A'' ''B'' [], provider [] None [])) = provider [] None []"
    using r[of "form ''A'' ''B'' []"] by (simp add: form_def utf16_def)
  moreover have "snd (handleSubmit memory_api latin1_toLowerCase
            (form ''  '' ''B'' ''5'', provider [] None [])) = provider [] None []"
    using r[of "form ''  '' ''B'' ''5''"] by (simp add: form_def t)
  moreover have "snd (handleSubmit memory_api latin1_toLowerCase
            (form ''Bob '' '' bob'' ''5'', provider [] None [])) = provider [] None []"
    using r[of "form ''Bob '' '' bob'' ''5''"] by (simp add: form_def l)
  moreover have "snd (handleSubmit memory_api latin1_toLowerCase
            (form '' Bob'' '' BOB'' ''5'', provider [] None [])) = provider [] None []"
    using r[of "form '' Bob'' '' BOB'' ''5''"] by (simp add: form_def u trim_latin1_toLowerCase)
  ultimately show ?thesis by blast
qed

end
